theory Spec2Isabelle
  imports Main
begin

section \<open>The asynchronous resolve coordinator of lib/hostasyn.c\<close>

text \<open>
  The file embeds the operations of \<^verbatim>\<open>lib/hostasyn.c\<close> that change state:
  \<^verbatim>\<open>Curl_addrinfo_callback\<close>, \<^verbatim>\<open>Curl_async_resolved\<close>, \<^verbatim>\<open>Curl_resolver_create\<close>,
  \<^verbatim>\<open>Curl_resolver_create_with_userdata\<close> and \<^verbatim>\<open>Curl_resolver_destroy\<close>. The
  accessors \<^verbatim>\<open>Curl_getaddrinfo\<close> and \<^verbatim>\<open>Curl_resolver_userdata\<close> and the table of
  the default backend only forward or read, and are left out.

  A C pointer that the code tests against \<^verbatim>\<open>NULL\<close> is an \<open>option\<close> (\<open>None\<close> is
  \<^verbatim>\<open>NULL\<close>); a pointer the code dereferences without a test and that its callers hand
  over valid (\<^verbatim>\<open>data\<close>, \<^verbatim>\<open>data->easy_conn\<close>, \<^verbatim>\<open>conn\<close>, \<^verbatim>\<open>callbacks\<close>) is the
  pointed-to record itself. Every field write of the Pending Resolution and every call
  that leaves the file is appended, in program order, to a list of events, so that
  the order of the effects of one invocation can be stated.
\<close>

subsection \<open>Codes and pointers\<close>

type_synonym ptr = nat

type_synonym CURLcode = int

text \<open>
  Modelled from the spec: the enumeration \<^verbatim>\<open>CURLcode\<close> and the macro
  \<^verbatim>\<open>CURL_ASYNC_SUCCESS\<close> are declared in headers that are not part of the source
  given here (\<^verbatim>\<open>curl/curl.h\<close>, \<^verbatim>\<open>hostip.h\<close>). The spec names a success status and
  an out-of-memory error kind; the numbers are those of the public header
  (\<^verbatim>\<open>CURLE_OK\<close> is 0, which is also what \<^verbatim>\<open>if(result)\<close> in the source relies on,
  \<^verbatim>\<open>CURLE_OUT_OF_MEMORY\<close> is 27, and \<^verbatim>\<open>CURL_ASYNC_SUCCESS\<close> expands to the
  success code 0 of the active backend).
\<close>

definition CURLE_OK :: CURLcode where
  "CURLE_OK = 0"

definition CURLE_OUT_OF_MEMORY :: CURLcode where
  "CURLE_OUT_OF_MEMORY = 27"

definition CURL_ASYNC_SUCCESS :: int where
  "CURL_ASYNC_SUCCESS = 0"

datatype error = Null_dereference | Assertion_failed

subsection \<open>Events\<close>

datatype event =
    Set_async_status int
  | Set_async_dns "ptr option"
  | Set_async_done bool
  | Set_dns_entry "ptr option"
  | Call_share_lock
  | Call_share_unlock
  | Call_cache_addr ptr string int "ptr option"
  | Call_freeaddrinfo ptr
  | Call_setup_conn CURLcode
  | Call_disconnect
  | Call_calloc
  | Call_init "ptr option" CURLcode
  | Call_cleanup "ptr option"
  | Call_free

fun is_done_write :: "event \<Rightarrow> bool" where
  "is_done_write (Set_async_done b) = True"
| "is_done_write e = False"

fun is_status_write :: "event \<Rightarrow> bool" where
  "is_status_write (Set_async_status v) = True"
| "is_status_write e = False"

fun is_dns_write :: "event \<Rightarrow> bool" where
  "is_dns_write (Set_async_dns d) = True"
| "is_dns_write e = False"

fun is_cache_store :: "event \<Rightarrow> bool" where
  "is_cache_store (Call_cache_addr a h p d) = True"
| "is_cache_store e = False"

fun is_stored :: "event \<Rightarrow> bool" where
  "is_stored (Call_cache_addr a h p (Some d)) = True"
| "is_stored e = False"

fun is_release :: "event \<Rightarrow> bool" where
  "is_release (Call_freeaddrinfo a) = True"
| "is_release e = False"

fun is_lock_op :: "event \<Rightarrow> bool" where
  "is_lock_op Call_share_lock = True"
| "is_lock_op Call_share_unlock = True"
| "is_lock_op e = False"

fun is_setup :: "event \<Rightarrow> bool" where
  "is_setup (Call_setup_conn r) = True"
| "is_setup e = False"

fun is_entry_write :: "event \<Rightarrow> bool" where
  "is_entry_write (Set_dns_entry d) = True"
| "is_entry_write e = False"

fun is_cleanup :: "event \<Rightarrow> bool" where
  "is_cleanup (Call_cleanup u) = True"
| "is_cleanup e = False"

definition occurrences :: "(event \<Rightarrow> bool) \<Rightarrow> event list \<Rightarrow> nat" where
  "occurrences P evs = length (filter P evs)"

text \<open>\<open>adjacent x y evs\<close>: somewhere in \<open>evs\<close>, \<open>y\<close> is the event right after \<open>x\<close>.\<close>

fun adjacent :: "event \<Rightarrow> event \<Rightarrow> event list \<Rightarrow> bool" where
  "adjacent x y (e1 # e2 # evs) = ((e1 = x \<and> e2 = y) \<or> adjacent x y (e2 # evs))"
| "adjacent x y evs = False"

subsection \<open>The structures the source reads and writes\<close>

text \<open>
  \<^verbatim>\<open>struct Curl_async\<close>, the Pending Resolution inside a connection. The fields are
  \<^verbatim>\<open>hostname\<close>, \<^verbatim>\<open>port\<close>, \<^verbatim>\<open>dns\<close>, \<^verbatim>\<open>status\<close> and \<^verbatim>\<open>done\<close> in C; they carry the
  prefix \<open>async_\<close> here because \<open>done\<close> is a keyword of the proof language.
\<close>

record Curl_async =
  async_hostname :: string
  async_port :: int
  async_dns :: "ptr option"
  async_status :: int
  async_done :: bool

record connectdata =
  async :: Curl_async
  dns_entry :: "ptr option"

record SessionHandle =
  easy_conn :: connectdata
  share :: "ptr option"

text \<open>
  The running state of one invocation: the object the code works on and the events
  it has produced so far.
\<close>

record 's exec =
  store :: 's
  events :: "event list"

definition emit :: "event \<Rightarrow> 's exec \<Rightarrow> 's exec" where
  "emit e s = s\<lparr>events := events s @ [e]\<rparr>"

definition set_async_status :: "int \<Rightarrow> connectdata exec \<Rightarrow> connectdata exec" where
  "set_async_status v s =
     emit (Set_async_status v)
       (s\<lparr>store := (store s)\<lparr>async := (async (store s))\<lparr>async_status := v\<rparr>\<rparr>\<rparr>)"

definition set_async_dns :: "ptr option \<Rightarrow> connectdata exec \<Rightarrow> connectdata exec" where
  "set_async_dns d s =
     emit (Set_async_dns d)
       (s\<lparr>store := (store s)\<lparr>async := (async (store s))\<lparr>async_dns := d\<rparr>\<rparr>\<rparr>)"

definition set_async_done :: "bool \<Rightarrow> connectdata exec \<Rightarrow> connectdata exec" where
  "set_async_done b s =
     emit (Set_async_done b)
       (s\<lparr>store := (store s)\<lparr>async := (async (store s))\<lparr>async_done := b\<rparr>\<rparr>\<rparr>)"

definition set_dns_entry :: "ptr option \<Rightarrow> connectdata exec \<Rightarrow> connectdata exec" where
  "set_dns_entry d s =
     emit (Set_dns_entry d) (s\<lparr>store := (store s)\<lparr>dns_entry := d\<rparr>\<rparr>)"

subsection \<open>Curl_addrinfo_callback\<close>

text \<open>
  \<^verbatim>\<open>Curl_cache_addr\<close> is not defined in this source: the function is a parameter,
  giving the entry it returns (\<open>None\<close> when the store fails) for the handle, the
  address list, the host name and the port it is called with.
  \<^verbatim>\<open>Curl_share_lock\<close>, \<^verbatim>\<open>Curl_share_unlock\<close> and \<^verbatim>\<open>Curl_freeaddrinfo\<close> return
  nothing the callback reads, so they are events only.
\<close>

record callback_ret =
  cb_result :: CURLcode
  cb_data :: SessionHandle
  cb_events :: "event list"

definition Curl_addrinfo_callback ::
  "(SessionHandle \<Rightarrow> ptr \<Rightarrow> string \<Rightarrow> int \<Rightarrow> ptr option) \<Rightarrow>
     SessionHandle \<Rightarrow> int \<Rightarrow> ptr option \<Rightarrow> callback_ret" where
  "Curl_addrinfo_callback Curl_cache_addr data status ai =
     (let dns0 = None;
          result0 = CURLE_OK;
          s1 = set_async_status status \<lparr>store = easy_conn data, events = []\<rparr>;
          (dns, result, s2) =
            (if CURL_ASYNC_SUCCESS = status then
               (case ai of
                  Some a \<Rightarrow>
                    let s = (if share data \<noteq> None then emit Call_share_lock s1 else s1);
                        host = async_hostname (async (store s));
                        prt = async_port (async (store s));
                        dns = Curl_cache_addr (data\<lparr>easy_conn := store s\<rparr>) a host prt;
                        s = emit (Call_cache_addr a host prt dns) s;
                        (result, s) =
                          (if dns = None
                           then (CURLE_OUT_OF_MEMORY, emit (Call_freeaddrinfo a) s)
                           else (result0, s));
                        s = (if share data \<noteq> None then emit Call_share_unlock s else s)
                    in (dns, result, s)
                | None \<Rightarrow> (dns0, CURLE_OUT_OF_MEMORY, s1))
             else (dns0, result0, s1));
          s3 = set_async_dns dns s2;
          s4 = set_async_done True s3
      in \<lparr>cb_result = result,
          cb_data = data\<lparr>easy_conn := store s4\<rparr>,
          cb_events = events s4\<rparr>)"

subsection \<open>Curl_async_resolved\<close>

text \<open>
  \<^verbatim>\<open>Curl_setup_conn\<close> and \<^verbatim>\<open>Curl_disconnect\<close> are not defined in this source.
  Setup is a parameter giving, for the connection and the value of
  \<^verbatim>\<open>*protocol_done\<close> it is called with, the code it returns and the value it leaves
  in \<^verbatim>\<open>*protocol_done\<close>; the call and the teardown are events.
\<close>

record resolved_ret =
  ar_result :: CURLcode
  ar_protocol_done :: bool
  ar_conn :: connectdata
  ar_events :: "event list"

definition Curl_async_resolved ::
  "(connectdata \<Rightarrow> bool \<Rightarrow> CURLcode \<times> bool) \<Rightarrow> connectdata \<Rightarrow> bool \<Rightarrow> resolved_ret" where
  "Curl_async_resolved Curl_setup_conn conn protocol_done =
     (let s0 = \<lparr>store = conn, events = []\<rparr>;
          s1 = (if async_dns (async (store s0)) \<noteq> None
                then set_async_dns None (set_dns_entry (async_dns (async (store s0))) s0)
                else s0);
          (result, pd) = Curl_setup_conn (store s1) protocol_done;
          s2 = emit (Call_setup_conn result) s1;
          s3 = (if result \<noteq> 0 then emit Call_disconnect s2 else s2)
      in \<lparr>ar_result = result, ar_protocol_done = pd,
          ar_conn = store s3, ar_events = events s3\<rparr>)"

subsection \<open>Resolver handles\<close>

text \<open>
  Of the eight function pointers of \<^verbatim>\<open>struct Curl_resolver_callbacks\<close> the handle
  life cycle calls two. \<^verbatim>\<open>init\<close> receives the address of the handle's
  \<^verbatim>\<open>userdata\<close>: it returns a code and the value it leaves there. Both functions
  act on state of the backend, of type \<open>'b\<close>, which the coordinator never inspects.
\<close>

record 'b Curl_resolver_callbacks =
  init :: "ptr option \<Rightarrow> 'b \<Rightarrow> CURLcode \<times> ptr option \<times> 'b"
  cleanup :: "ptr option \<Rightarrow> 'b \<Rightarrow> 'b"

record 'b Curl_resolver =
  userdata :: "ptr option"
  callbacks :: "'b Curl_resolver_callbacks"

definition Curl_resolver_destroy ::
  "'b Curl_resolver option \<Rightarrow> 'b exec \<Rightarrow> error + 'b exec" where
  "Curl_resolver_destroy resolver s =
     (case resolver of
        None \<Rightarrow> Inl Assertion_failed
      | Some r \<Rightarrow>
          let s1 = emit (Call_cleanup (userdata r))
                     (s\<lparr>store := cleanup (callbacks r) (userdata r) (store s)\<rparr>);
              s2 = emit Call_free s1
          in Inr s2)"

record 'b create_ret =
  cr_handle :: "'b Curl_resolver option"
  cr_backend :: 'b
  cr_events :: "event list"

text \<open>
  \<^verbatim>\<open>calloc\<close> may return \<^verbatim>\<open>NULL\<close>, and the source writes through the result
  without a test: \<open>calloc_ok\<close> says whether this call of \<^verbatim>\<open>calloc\<close> returned a
  block, and the write through \<^verbatim>\<open>NULL\<close> is the error \<open>Null_dereference\<close>.
\<close>

definition Curl_resolver_create ::
  "'b Curl_resolver_callbacks \<Rightarrow> bool \<Rightarrow> 'b \<Rightarrow> error + 'b create_ret" where
  "Curl_resolver_create cbs calloc_ok b =
     (if \<not> calloc_ok then Inl Null_dereference
      else
        let s0 = emit Call_calloc \<lparr>store = b, events = []\<rparr>;
            ret = \<lparr>userdata = None, callbacks = cbs\<rparr>;
            (rc, ud, b1) = init (callbacks ret) (userdata ret) (store s0);
            s1 = emit (Call_init (userdata ret) rc) (s0\<lparr>store := b1\<rparr>);
            ret = ret\<lparr>userdata := ud\<rparr>
        in if rc \<noteq> CURLE_OK
           then (case Curl_resolver_destroy (Some ret) s1 of
                   Inl e \<Rightarrow> Inl e
                 | Inr s2 \<Rightarrow>
                     Inr \<lparr>cr_handle = None, cr_backend = store s2, cr_events = events s2\<rparr>)
           else Inr \<lparr>cr_handle = Some ret, cr_backend = store s1, cr_events = events s1\<rparr>)"

definition Curl_resolver_create_with_userdata ::
  "'b Curl_resolver_callbacks \<Rightarrow> ptr option \<Rightarrow> bool \<Rightarrow> 'b \<Rightarrow> error + 'b create_ret" where
  "Curl_resolver_create_with_userdata cbs udata calloc_ok b =
     (if \<not> calloc_ok then Inl Null_dereference
      else
        let s0 = emit Call_calloc \<lparr>store = b, events = []\<rparr>;
            ret = \<lparr>userdata = udata, callbacks = cbs\<rparr>;
            (rc, ud, b1) = init (callbacks ret) (userdata ret) (store s0);
            s1 = emit (Call_init (userdata ret) rc) (s0\<lparr>store := b1\<rparr>);
            ret = ret\<lparr>userdata := ud\<rparr>
        in if rc \<noteq> CURLE_OK
           then (case Curl_resolver_destroy (Some ret) s1 of
                   Inl e \<Rightarrow> Inl e
                 | Inr s2 \<Rightarrow>
                     Inr \<lparr>cr_handle = None, cr_backend = store s2, cr_events = events s2\<rparr>)
           else Inr \<lparr>cr_handle = Some ret, cr_backend = store s1, cr_events = events s1\<rparr>)"

subsection \<open>Concrete inputs\<close>

text \<open>
  A connection that is resolving \<open>example.test:80\<close>, a handle outside any share and
  one inside a share, a cache store that fails and one that returns the entry at
  address 9.
\<close>

definition example_conn :: connectdata where
  "example_conn =
     \<lparr>async = \<lparr>async_hostname = ''example.test'', async_port = 80, async_dns = None,
                async_status = 0, async_done = False\<rparr>,
      dns_entry = None\<rparr>"

definition example_data :: SessionHandle where
  "example_data = \<lparr>easy_conn = example_conn, share = None\<rparr>"

definition shared_data :: SessionHandle where
  "shared_data = \<lparr>easy_conn = example_conn, share = Some 3\<rparr>"

definition store_fails :: "SessionHandle \<Rightarrow> ptr \<Rightarrow> string \<Rightarrow> int \<Rightarrow> ptr option" where
  "store_fails data a h p = None"

definition store_at_9 :: "SessionHandle \<Rightarrow> ptr \<Rightarrow> string \<Rightarrow> int \<Rightarrow> ptr option" where
  "store_at_9 data a h p = Some 9"

text \<open>
  A connection whose lookup has completed with the failure status 6 and no entry, and
  one whose lookup has completed with success and the entry at address 9; a setup that
  succeeds and one that fails with code 7.
\<close>

definition failed_conn :: connectdata where
  "failed_conn =
     \<lparr>async = \<lparr>async_hostname = ''example.test'', async_port = 80, async_dns = None,
                async_status = 6, async_done = True\<rparr>,
      dns_entry = None\<rparr>"

definition resolved_conn :: connectdata where
  "resolved_conn =
     \<lparr>async = \<lparr>async_hostname = ''example.test'', async_port = 80, async_dns = Some 9,
                async_status = 0, async_done = True\<rparr>,
      dns_entry = None\<rparr>"

definition setup_ok :: "connectdata \<Rightarrow> bool \<Rightarrow> CURLcode \<times> bool" where
  "setup_ok c pd = (CURLE_OK, True)"

definition setup_fails :: "connectdata \<Rightarrow> bool \<Rightarrow> CURLcode \<times> bool" where
  "setup_fails c pd = (7, pd)"

text \<open>
  A backend that tracks its allocations: the state is the number of private blocks
  alive. \<open>init\<close> allocates one block, leaves its address in \<^verbatim>\<open>userdata\<close> and then
  fails; \<open>cleanup\<close> releases the block \<^verbatim>\<open>userdata\<close> points to, if any.
\<close>

definition tracking_double :: "nat Curl_resolver_callbacks" where
  "tracking_double =
     \<lparr>init = (\<lambda>u live. (CURLE_OUT_OF_MEMORY, Some 5, Suc live)),
      cleanup = (\<lambda>u live. if u = None then live else live - 1)\<rparr>"

section \<open>Properties\<close>

lemmas cb_defs = Curl_addrinfo_callback_def set_async_status_def set_async_dns_def
  set_async_done_def emit_def Let_def

lemmas ar_defs = Curl_async_resolved_def set_async_dns_def set_dns_entry_def emit_def Let_def

lemmas create_defs = Curl_resolver_create_def Curl_resolver_destroy_def emit_def Let_def

lemmas example_defs = example_conn_def example_data_def shared_data_def store_fails_def
  store_at_9_def failed_conn_def resolved_conn_def setup_ok_def setup_fails_def
  tracking_double_def CURLE_OK_def CURLE_OUT_OF_MEMORY_def CURL_ASYNC_SUCCESS_def

lemma is_stored_iff [simp]: "is_stored (Call_cache_addr a h p d) = (d \<noteq> None)"
  by (cases d) simp_all

subsection \<open>The completion callback\<close>

text \<open>
  C1: in every execution of \<^verbatim>\<open>Curl_addrinfo_callback\<close>, on every path, the write of
  \<^verbatim>\<open>conn->async.done = TRUE\<close> is the last effect of the callback: it is the only
  write of the flag, and the one write of \<^verbatim>\<open>conn->async.status\<close> and the one write
  of \<^verbatim>\<open>conn->async.dns\<close>, which store the values the two fields have when the
  callback returns, come before it in program order.
\<close>

theorem done_flag_written_last:
  fixes Curl_cache_addr data status ai
  defines "r \<equiv> Curl_addrinfo_callback Curl_cache_addr data status ai"
  shows "\<exists>pre. cb_events r = pre @ [Set_async_done True]
     \<and> occurrences is_done_write pre = 0
     \<and> occurrences is_status_write pre = 1
     \<and> Set_async_status (async_status (async (easy_conn (cb_data r)))) \<in> set pre
     \<and> occurrences is_dns_write pre = 1
     \<and> Set_async_dns (async_dns (async (easy_conn (cb_data r)))) \<in> set pre
     \<and> async_status (async (easy_conn (cb_data r))) = status
     \<and> async_done (async (easy_conn (cb_data r))) = True"
  unfolding r_def
  by (auto simp: cb_defs occurrences_def split: option.splits)

theorem done_flag_written_last_witness:
  "\<exists>pre. cb_events (Curl_addrinfo_callback store_at_9 shared_data CURL_ASYNC_SUCCESS (Some 1))
            = pre @ [Set_async_done True]
     \<and> pre = [Set_async_status 0, Call_share_lock,
              Call_cache_addr 1 ''example.test'' 80 (Some 9), Call_share_unlock,
              Set_async_dns (Some 9)]"
  using done_flag_written_last [where Curl_cache_addr = store_at_9 and data = shared_data
      and status = CURL_ASYNC_SUCCESS and ai = "Some 1"]
  by (simp add: cb_defs example_defs)

text \<open>
  C2: when \<^verbatim>\<open>Curl_addrinfo_callback\<close> has returned, \<^verbatim>\<open>conn->async.dns\<close> is non-null
  if and only if the status supplied is \<^verbatim>\<open>CURL_ASYNC_SUCCESS\<close> and the callback has
  called \<^verbatim>\<open>Curl_cache_addr\<close> and got an entry back. There is at most one such call,
  and a non-null reference is the entry that call returned for the list supplied.
\<close>

theorem dns_reference_iff_stored:
  fixes Curl_cache_addr data status ai
  defines "r \<equiv> Curl_addrinfo_callback Curl_cache_addr data status ai"
  shows "((async_dns (async (easy_conn (cb_data r))) \<noteq> None) =
            (status = CURL_ASYNC_SUCCESS \<and> occurrences is_stored (cb_events r) = 1))
     \<and> occurrences is_stored (cb_events r) \<le> 1
     \<and> (async_dns (async (easy_conn (cb_data r))) = None
        \<or> (\<exists>a. ai = Some a
              \<and> Call_cache_addr a (async_hostname (async (easy_conn data)))
                   (async_port (async (easy_conn data)))
                   (async_dns (async (easy_conn (cb_data r)))) \<in> set (cb_events r)))"
  unfolding r_def
  by (auto simp: cb_defs occurrences_def split: option.splits)

theorem dns_reference_iff_stored_witness:
  "async_dns (async (easy_conn (cb_data
      (Curl_addrinfo_callback store_at_9 example_data CURL_ASYNC_SUCCESS (Some 1))))) = Some 9
   \<and> occurrences is_stored (cb_events
        (Curl_addrinfo_callback store_at_9 example_data CURL_ASYNC_SUCCESS (Some 1))) = 1
   \<and> async_dns (async (easy_conn (cb_data
        (Curl_addrinfo_callback store_fails example_data CURL_ASYNC_SUCCESS (Some 1))))) = None
   \<and> occurrences is_stored (cb_events
        (Curl_addrinfo_callback store_fails example_data CURL_ASYNC_SUCCESS (Some 1))) = 0
   \<and> async_dns (async (easy_conn (cb_data
        (Curl_addrinfo_callback store_at_9 example_data 6 (Some 1))))) = None"
  using dns_reference_iff_stored [where Curl_cache_addr = store_at_9 and data = example_data
      and status = CURL_ASYNC_SUCCESS and ai = "Some 1"]
    dns_reference_iff_stored [where Curl_cache_addr = store_fails and data = example_data
      and status = CURL_ASYNC_SUCCESS and ai = "Some 1"]
    dns_reference_iff_stored [where Curl_cache_addr = store_at_9 and data = example_data
      and status = 6 and ai = "Some 1"]
  by (simp add: cb_defs example_defs occurrences_def)

text \<open>
  C3: when \<^verbatim>\<open>Curl_addrinfo_callback\<close> is called with \<^verbatim>\<open>CURL_ASYNC_SUCCESS\<close> and a
  non-null address list, it calls \<^verbatim>\<open>Curl_cache_addr\<close> on that list exactly once, and
  exactly one of two things happens: the call returns an entry and
  \<^verbatim>\<open>Curl_freeaddrinfo\<close> is not called, or the call returns \<^verbatim>\<open>NULL\<close> and
  \<^verbatim>\<open>Curl_freeaddrinfo\<close> is called once, on that list.
\<close>

theorem store_or_release_exactly_one:
  fixes Curl_cache_addr data status ai a
  defines "r \<equiv> Curl_addrinfo_callback Curl_cache_addr data status ai"
  assumes "status = CURL_ASYNC_SUCCESS" and "ai = Some a"
  shows "occurrences is_cache_store (cb_events r) = 1
     \<and> (\<exists>d. Call_cache_addr a (async_hostname (async (easy_conn data)))
              (async_port (async (easy_conn data))) d \<in> set (cb_events r))
     \<and> (occurrences is_stored (cb_events r) = 1 \<and> occurrences is_release (cb_events r) = 0
        \<or> occurrences is_stored (cb_events r) = 0 \<and> occurrences is_release (cb_events r) = 1
           \<and> Call_freeaddrinfo a \<in> set (cb_events r))"
  using assms(2,3) unfolding r_def
  by (auto simp: cb_defs occurrences_def split: option.splits)

theorem store_or_release_exactly_one_witness:
  "occurrences is_stored (cb_events
      (Curl_addrinfo_callback store_at_9 shared_data CURL_ASYNC_SUCCESS (Some 1))) = 1
   \<and> occurrences is_release (cb_events
        (Curl_addrinfo_callback store_at_9 shared_data CURL_ASYNC_SUCCESS (Some 1))) = 0
   \<and> occurrences is_stored (cb_events
        (Curl_addrinfo_callback store_fails shared_data CURL_ASYNC_SUCCESS (Some 1))) = 0
   \<and> occurrences is_release (cb_events
        (Curl_addrinfo_callback store_fails shared_data CURL_ASYNC_SUCCESS (Some 1))) = 1"
  using store_or_release_exactly_one [where Curl_cache_addr = store_at_9
      and data = shared_data and status = CURL_ASYNC_SUCCESS and ai = "Some 1" and a = 1]
    store_or_release_exactly_one [where Curl_cache_addr = store_fails
      and data = shared_data and status = CURL_ASYNC_SUCCESS and ai = "Some 1" and a = 1]
  by (simp add: cb_defs example_defs occurrences_def)

text \<open>
  C4, as amended: when \<^verbatim>\<open>Curl_addrinfo_callback\<close> is called with
  \<^verbatim>\<open>CURL_ASYNC_SUCCESS\<close> and a non-null address list and the cache store fails, the
  list is released right after the failed store, the callback returns
  \<^verbatim>\<open>CURLE_OUT_OF_MEMORY\<close>, and in the Pending Resolution the reference is null while
  the status stays the success status that was supplied: the out-of-memory code is
  the returned result only.
\<close>

theorem store_failure_releases_list:
  fixes Curl_cache_addr data status ai a
  defines "r \<equiv> Curl_addrinfo_callback Curl_cache_addr data status ai"
  assumes "status = CURL_ASYNC_SUCCESS" and "ai = Some a"
    and "occurrences is_stored (cb_events r) = 0"
  shows "adjacent (Call_cache_addr a (async_hostname (async (easy_conn data)))
                     (async_port (async (easy_conn data))) None)
                  (Call_freeaddrinfo a) (cb_events r)
     \<and> occurrences is_release (cb_events r) = 1
     \<and> cb_result r = CURLE_OUT_OF_MEMORY
     \<and> async_status (async (easy_conn (cb_data r))) = CURL_ASYNC_SUCCESS
     \<and> async_dns (async (easy_conn (cb_data r))) = None"
  using assms(2,3,4) unfolding r_def
  by (auto simp: cb_defs occurrences_def split: option.splits if_splits)

theorem store_failure_releases_list_witness:
  "occurrences is_stored (cb_events
      (Curl_addrinfo_callback store_fails example_data CURL_ASYNC_SUCCESS (Some 1))) = 0
   \<and> cb_events (Curl_addrinfo_callback store_fails example_data CURL_ASYNC_SUCCESS (Some 1))
       = [Set_async_status 0, Call_cache_addr 1 ''example.test'' 80 None,
          Call_freeaddrinfo 1, Set_async_dns None, Set_async_done True]
   \<and> cb_result (Curl_addrinfo_callback store_fails example_data CURL_ASYNC_SUCCESS (Some 1))
       = CURLE_OUT_OF_MEMORY"
  using store_failure_releases_list [where Curl_cache_addr = store_fails
      and data = example_data and status = CURL_ASYNC_SUCCESS and ai = "Some 1" and a = 1]
  by (simp add: cb_defs example_defs occurrences_def)

text \<open>
  C4 as stated fails: with \<^verbatim>\<open>CURL_ASYNC_SUCCESS\<close>, the list at address 1 and a store
  that fails, the callback returns \<^verbatim>\<open>CURLE_OUT_OF_MEMORY\<close>, but the status it leaves
  in the Pending Resolution is the success status, not the out-of-memory code.
\<close>

theorem status_not_downgraded_counterexample:
  "occurrences is_stored (cb_events
      (Curl_addrinfo_callback store_fails example_data CURL_ASYNC_SUCCESS (Some 1))) = 0
   \<and> cb_result (Curl_addrinfo_callback store_fails example_data CURL_ASYNC_SUCCESS (Some 1))
       = CURLE_OUT_OF_MEMORY
   \<and> async_status (async (easy_conn (cb_data
        (Curl_addrinfo_callback store_fails example_data CURL_ASYNC_SUCCESS (Some 1)))))
       = CURL_ASYNC_SUCCESS
   \<and> async_status (async (easy_conn (cb_data
        (Curl_addrinfo_callback store_fails example_data CURL_ASYNC_SUCCESS (Some 1)))))
       \<noteq> CURLE_OUT_OF_MEMORY"
  by (simp add: cb_defs example_defs occurrences_def)

text \<open>
  C8: when \<^verbatim>\<open>Curl_addrinfo_callback\<close> is called with \<^verbatim>\<open>CURL_ASYNC_SUCCESS\<close> and a
  null address list, it returns \<^verbatim>\<open>CURLE_OUT_OF_MEMORY\<close> and calls neither
  \<^verbatim>\<open>Curl_cache_addr\<close> nor \<^verbatim>\<open>Curl_share_lock\<close> nor \<^verbatim>\<open>Curl_share_unlock\<close>: its
  only effects are the three writes to the Pending Resolution.
\<close>

theorem success_without_list_is_out_of_memory:
  fixes Curl_cache_addr data status ai
  defines "r \<equiv> Curl_addrinfo_callback Curl_cache_addr data status ai"
  assumes "status = CURL_ASYNC_SUCCESS" and "ai = None"
  shows "cb_result r = CURLE_OUT_OF_MEMORY
     \<and> occurrences is_cache_store (cb_events r) = 0
     \<and> occurrences is_lock_op (cb_events r) = 0
     \<and> cb_events r = [Set_async_status status, Set_async_dns None, Set_async_done True]"
  using assms(2,3) unfolding r_def
  by (simp add: cb_defs occurrences_def)

theorem success_without_list_is_out_of_memory_witness:
  "cb_result (Curl_addrinfo_callback store_at_9 shared_data CURL_ASYNC_SUCCESS None) = 27
   \<and> occurrences is_cache_store (cb_events
        (Curl_addrinfo_callback store_at_9 shared_data CURL_ASYNC_SUCCESS None)) = 0
   \<and> occurrences is_lock_op (cb_events
        (Curl_addrinfo_callback store_at_9 shared_data CURL_ASYNC_SUCCESS None)) = 0"
  using success_without_list_is_out_of_memory [where Curl_cache_addr = store_at_9
      and data = shared_data and status = CURL_ASYNC_SUCCESS and ai = None]
  by (simp add: example_defs occurrences_def)

subsection \<open>The resolution consumer\<close>

text \<open>
  \<^verbatim>\<open>Curl_setup_conn\<close> and \<^verbatim>\<open>Curl_disconnect\<close> are taken not to write
  \<^verbatim>\<open>conn->async.dns\<close> or \<^verbatim>\<open>conn->dns_entry\<close>: the connection that
  \<^verbatim>\<open>Curl_async_resolved\<close> leaves is the one it handed to setup.
\<close>

text \<open>
  C5, as amended: for every Pending Resolution whose status denotes failure,
  \<^verbatim>\<open>Curl_async_resolved\<close> does not look at the stored status: it calls
  \<^verbatim>\<open>Curl_setup_conn\<close> exactly once and returns the code that call returned, leaving
  the stored status as it was; when that code is a failure, the last thing it does
  before returning is to call \<^verbatim>\<open>Curl_disconnect\<close>.
\<close>

theorem consumer_runs_setup_whatever_status:
  fixes Curl_setup_conn conn protocol_done
  defines "r \<equiv> Curl_async_resolved Curl_setup_conn conn protocol_done"
  assumes "async_status (async conn) \<noteq> CURL_ASYNC_SUCCESS"
  shows "occurrences is_setup (ar_events r) = 1
     \<and> Call_setup_conn (ar_result r) \<in> set (ar_events r)
     \<and> ar_result r = fst (Curl_setup_conn (ar_conn r) protocol_done)
     \<and> async_status (async (ar_conn r)) = async_status (async conn)
     \<and> (ar_result r \<noteq> CURLE_OK \<longrightarrow> last (ar_events r) = Call_disconnect)"
  unfolding r_def
  by (auto simp: ar_defs occurrences_def CURLE_OK_def split: prod.splits)

theorem consumer_runs_setup_whatever_status_witness:
  "async_status (async failed_conn) \<noteq> CURL_ASYNC_SUCCESS
   \<and> occurrences is_setup (ar_events (Curl_async_resolved setup_fails failed_conn False)) = 1
   \<and> ar_result (Curl_async_resolved setup_fails failed_conn False) = 7
   \<and> ar_result (Curl_async_resolved setup_fails failed_conn False) \<noteq> CURLE_OK
   \<and> last (ar_events (Curl_async_resolved setup_fails failed_conn False)) = Call_disconnect"
  using consumer_runs_setup_whatever_status [where Curl_setup_conn = setup_fails
      and conn = failed_conn and protocol_done = False]
  by (simp add: ar_defs example_defs occurrences_def)

text \<open>
  C5 as stated fails: on the connection whose stored status is the failure code 6,
  with a setup that succeeds, \<^verbatim>\<open>Curl_async_resolved\<close> does call
  \<^verbatim>\<open>Curl_setup_conn\<close>, returns \<^verbatim>\<open>CURLE_OK\<close> and not the stored status, and does
  not call \<^verbatim>\<open>Curl_disconnect\<close>; with a setup that fails with code 7 it calls setup
  too and returns 7, not the stored 6.
\<close>

theorem consumer_ignores_status_counterexample:
  "async_status (async failed_conn) = 6
   \<and> async_status (async failed_conn) \<noteq> CURL_ASYNC_SUCCESS
   \<and> occurrences is_setup (ar_events (Curl_async_resolved setup_ok failed_conn False)) = 1
   \<and> ar_result (Curl_async_resolved setup_ok failed_conn False) = CURLE_OK
   \<and> ar_result (Curl_async_resolved setup_ok failed_conn False)
       \<noteq> async_status (async failed_conn)
   \<and> count_list (ar_events (Curl_async_resolved setup_ok failed_conn False)) Call_disconnect = 0
   \<and> occurrences is_setup (ar_events (Curl_async_resolved setup_fails failed_conn False)) = 1
   \<and> ar_result (Curl_async_resolved setup_fails failed_conn False)
       \<noteq> async_status (async failed_conn)"
  by (simp add: ar_defs example_defs occurrences_def)

text \<open>
  C6: when the Pending Resolution holds a reference, \<^verbatim>\<open>Curl_async_resolved\<close> first
  writes it to \<^verbatim>\<open>conn->dns_entry\<close> and then writes \<^verbatim>\<open>NULL\<close> to
  \<^verbatim>\<open>conn->async.dns\<close>; when it returns, the active slot holds the reference and the
  Pending Resolution holds none. A second invocation on the connection it left
  writes \<^verbatim>\<open>conn->dns_entry\<close> not at all: it finds nothing to claim, and the active
  slot keeps the reference.
\<close>

theorem claim_moves_reference:
  fixes setup1 setup2 conn protocol_done d
  defines "r1 \<equiv> Curl_async_resolved setup1 conn protocol_done"
  defines "r2 \<equiv> Curl_async_resolved setup2 (ar_conn r1) (ar_protocol_done r1)"
  assumes "async_dns (async conn) = Some d"
  shows "dns_entry (ar_conn r1) = Some d
     \<and> async_dns (async (ar_conn r1)) = None
     \<and> take 2 (ar_events r1) = [Set_dns_entry (Some d), Set_async_dns None]
     \<and> occurrences is_entry_write (ar_events r2) = 0
     \<and> occurrences is_dns_write (ar_events r2) = 0
     \<and> dns_entry (ar_conn r2) = Some d
     \<and> async_dns (async (ar_conn r2)) = None"
  using assms(3) unfolding r1_def r2_def
  by (auto simp: ar_defs occurrences_def split: prod.splits)

theorem claim_moves_reference_witness:
  "async_dns (async resolved_conn) = Some 9
   \<and> dns_entry resolved_conn = None
   \<and> dns_entry (ar_conn (Curl_async_resolved setup_ok resolved_conn False)) = Some 9
   \<and> async_dns (async (ar_conn (Curl_async_resolved setup_ok resolved_conn False))) = None
   \<and> ar_events (Curl_async_resolved setup_ok
        (ar_conn (Curl_async_resolved setup_ok resolved_conn False))
        (ar_protocol_done (Curl_async_resolved setup_ok resolved_conn False)))
       = [Call_setup_conn 0]"
  using claim_moves_reference [where ?setup1.0 = setup_ok and ?setup2.0 = setup_ok
      and conn = resolved_conn and protocol_done = False and d = 9]
  by (simp add: ar_defs example_defs)

text \<open>
  C7: \<^verbatim>\<open>Curl_async_resolved\<close> returns the code \<^verbatim>\<open>Curl_setup_conn\<close> returned. When
  that code is a failure, the call of \<^verbatim>\<open>Curl_disconnect\<close> comes right after the
  call of setup and is the last effect before the return, and it is the only
  teardown; when the code is \<^verbatim>\<open>CURLE_OK\<close>, \<^verbatim>\<open>Curl_disconnect\<close> is not called and
  the call of setup is the last effect.
\<close>

theorem teardown_iff_setup_fails:
  fixes Curl_setup_conn conn protocol_done
  defines "r \<equiv> Curl_async_resolved Curl_setup_conn conn protocol_done"
  shows "ar_result r = fst (Curl_setup_conn (ar_conn r) protocol_done)
     \<and> (ar_result r \<noteq> CURLE_OK \<longrightarrow>
           (\<exists>pre. ar_events r = pre @ [Call_setup_conn (ar_result r), Call_disconnect]
                \<and> count_list pre Call_disconnect = 0))
     \<and> (ar_result r = CURLE_OK \<longrightarrow>
           count_list (ar_events r) Call_disconnect = 0
           \<and> last (ar_events r) = Call_setup_conn CURLE_OK)"
  unfolding r_def
  by (auto simp: ar_defs CURLE_OK_def split: prod.splits)

theorem teardown_iff_setup_fails_witness:
  "ar_result (Curl_async_resolved setup_fails resolved_conn False) = 7
   \<and> ar_events (Curl_async_resolved setup_fails resolved_conn False)
       = [Set_dns_entry (Some 9), Set_async_dns None, Call_setup_conn 7, Call_disconnect]
   \<and> ar_result (Curl_async_resolved setup_ok resolved_conn False) = CURLE_OK
   \<and> count_list (ar_events (Curl_async_resolved setup_ok resolved_conn False))
        Call_disconnect = 0"
  using teardown_iff_setup_fails [where Curl_setup_conn = setup_fails
      and conn = resolved_conn and protocol_done = False]
    teardown_iff_setup_fails [where Curl_setup_conn = setup_ok
      and conn = resolved_conn and protocol_done = False]
  by (simp add: ar_defs example_defs)

subsection \<open>Resolver handles\<close>

text \<open>
  C9: when \<^verbatim>\<open>calloc\<close> has returned a block and the \<^verbatim>\<open>init\<close> of the capability set
  returns a code other than \<^verbatim>\<open>CURLE_OK\<close>, \<^verbatim>\<open>Curl_resolver_create\<close> returns
  \<^verbatim>\<open>NULL\<close>, and between the call of \<^verbatim>\<open>init\<close> and the \<^verbatim>\<open>free\<close> of the block it
  calls \<^verbatim>\<open>cleanup\<close> exactly once, on the \<^verbatim>\<open>userdata\<close> that \<^verbatim>\<open>init\<close> left in the
  handle: the backend state on return is the one \<^verbatim>\<open>cleanup\<close> produced from the
  state after \<^verbatim>\<open>init\<close>.
\<close>

theorem failed_init_returns_no_handle:
  assumes "init cbs None b = (rc, ud, b1)" and "rc \<noteq> CURLE_OK"
  shows "\<exists>r. Curl_resolver_create cbs True b = Inr r
     \<and> cr_handle r = None
     \<and> cr_events r = [Call_calloc, Call_init None rc, Call_cleanup ud, Call_free]
     \<and> occurrences is_cleanup (cr_events r) = 1
     \<and> adjacent (Call_cleanup ud) Call_free (cr_events r)
     \<and> cr_backend r = cleanup cbs ud b1"
  using assms by (simp add: create_defs occurrences_def)

theorem failed_init_returns_no_handle_witness:
  "init tracking_double None 0 = (CURLE_OUT_OF_MEMORY, Some 5, 1)
   \<and> CURLE_OUT_OF_MEMORY \<noteq> CURLE_OK
   \<and> Curl_resolver_create tracking_double True 0 =
       Inr \<lparr>cr_handle = None, cr_backend = 0,
            cr_events = [Call_calloc, Call_init None 27, Call_cleanup (Some 5), Call_free]\<rparr>"
  using failed_init_returns_no_handle [where cbs = tracking_double and b = 0
      and rc = CURLE_OUT_OF_MEMORY and ud = "Some 5" and ?b1.0 = 1]
  by (simp add: create_defs example_defs)

text \<open>
  C10: for every capability set, \<^verbatim>\<open>Curl_resolver_create(callbacks)\<close> behaves as
  \<^verbatim>\<open>Curl_resolver_create_with_userdata(callbacks, NULL)\<close>: the same handle or error,
  the same backend state and the same calls in the same order, whatever \<^verbatim>\<open>calloc\<close>
  and \<^verbatim>\<open>init\<close> do.
\<close>

theorem create_equals_create_with_null_userdata:
  "Curl_resolver_create cbs calloc_ok b =
   Curl_resolver_create_with_userdata cbs None calloc_ok b"
  unfolding Curl_resolver_create_def Curl_resolver_create_with_userdata_def
  by (rule refl)

end
